theory Spec2Isabelle
  imports Main
begin

section \<open>The NSQ broker adapter (broker/nsq/nsq.go)\<close>

text \<open>
  The broker is a state-holding coordinator in front of the go-nsq client. Everything
  that is not code of the broker (the go-nsq client, the codec, the UUID and random
  number generators, the caller's handlers) is taken as a parameter, the environment
  \<open>env\<close>. Every call the broker makes on these collaborators is appended to a
  trace of events, in the order the code makes it; whether such a call returns an error
  is decided by the environment from the call and the trace so far.

  Pointers are identities: a producer or a consumer created by the client is identified
  by the length of the trace at the moment of the call that creates it, so no two handles
  coincide. A subscriber handed back to the caller is the index of its record in the
  broker's list, which only ever grows at the end.
\<close>

subsection \<open>Data\<close>

type_synonym producer = nat
type_synonym consumer = nat
type_synonym chan = nat
type_synonym handler = nat
type_synonym codec = nat

datatype error = Error string

text \<open>The outcome of a method that returns a Go \<open>error\<close>: nil, an error, or a panic.\<close>

datatype result = Success | Failure error | Panic

text \<open>
  Values stored in a \<open>context.Context\<close> under the private key types of the package.
  A type assertion \<open>v.(T)\<close> succeeds exactly on the constructor of \<open>T\<close>. A context
  is the list of its bindings, the most recent first; the nil context is \<open>None\<close>.
\<close>

datatype ctxkey =
    lookupdHTTPAddrsKey
  | consumerOptsKey
  | asyncPublishKey
  | deferredPublishKey
  | concurrentHandlerKey
  | maxInFlightKey

datatype ctxval =
    StringsVal "string list"
  | IntVal int
  | DurationVal int
  | ChanVal "chan option"
  | OtherVal

type_synonym go_context = "(ctxkey \<times> ctxval) list"

definition Value :: "go_context \<Rightarrow> ctxkey \<Rightarrow> ctxval option" where
  "Value ctx k = map_of ctx k"

text \<open>\<open>broker.Message\<close>, \<open>nsq.Message\<close> and \<open>nsq.Config\<close> (the fields the broker reads).\<close>

record Message =
  Header :: "(string \<times> string) list"
  Body :: string

record nsq_Message =
  nsq_ID :: string
  nsq_Body :: string

record nsq_Config =
  MaxInFlight :: int
  other_settings :: "string list"

text \<open>\<open>broker.Options\<close>, \<open>broker.PublishOptions\<close>, \<open>broker.SubscribeOptions\<close>.\<close>

record Options =
  Addrs :: "string list"
  Codec :: codec
  Context :: "go_context option"

record PublishOptions =
  pub_Context :: "go_context option"

record SubscribeOptions =
  AutoAck :: bool
  Queue :: string
  sub_Context :: "go_context option"

record publication =
  pub_topic :: string
  pub_m :: Message
  pub_nm :: nsq_Message
  pub_opts :: PublishOptions

text \<open>
  The dispatch shim built by \<open>Subscribe\<close> is a closure over \<open>options\<close>,
  \<open>handler\<close> and \<open>topic\<close> (and the broker, which is passed when it runs).
\<close>

record HandlerFunc =
  h_options :: SubscribeOptions
  h_handler :: handler
  h_topic :: string

record subscriber =
  sub_topic :: string
  sub_opts :: SubscribeOptions
  sub_c :: consumer
  sub_h :: HandlerFunc
  sub_n :: int

record nsqBroker =
  nsqdTCPAddrs :: "string list"
  lookupdHTTPAddrs :: "string list"
  opts :: Options
  config :: nsq_Config
  running :: bool
  p :: "producer list"
  c :: "subscriber list"

text \<open>The calls made on the collaborators.\<close>

datatype event =
    NewProducer string nsq_Config
  | Producer_Ping producer
  | Producer_Stop producer
  | Producer_Publish producer string string
  | Producer_PublishAsync producer string string chan
  | Producer_DeferredPublish producer string int string
  | Producer_DeferredPublishAsync producer string int string chan
  | NewConsumer string string nsq_Config
  | AddConcurrentHandlers consumer HandlerFunc int
  | ConnectToNSQLookupds consumer "string list"
  | ConnectToNSQDs consumer "string list"
  | Consumer_Stop consumer
  | DisconnectFromNSQLookupd consumer string
  | DisconnectFromNSQD consumer string
  | NewUUID
  | Intn nat
  | DisableAutoResponse nsq_Message
  | HandlerCall handler publication

text \<open>
  The environment. \<open>call_err E tr ev\<close> is the error the call \<open>ev\<close> returns after the
  trace \<open>tr\<close>, if any. \<open>run_handler\<close> is the caller's handler: its return value and
  the calls it makes itself.
\<close>

record env =
  call_err :: "event list \<Rightarrow> event \<Rightarrow> error option"
  NewUUID_String :: "event list \<Rightarrow> string"
  rand_Int :: "event list \<Rightarrow> nat"
  NewConfig :: nsq_Config
  ConfigFlag_Set :: "nsq_Config \<Rightarrow> string \<Rightarrow> nsq_Config"
  NewCodec :: codec
  Marshal :: "codec \<Rightarrow> Message \<Rightarrow> error + string"
  Unmarshal :: "codec \<Rightarrow> string \<Rightarrow> error + Message"
  run_handler :: "event list \<Rightarrow> handler \<Rightarrow> publication \<Rightarrow> error option \<times> event list"

subsection \<open>NewBroker and Init\<close>

text \<open>Option arguments are functions applied in order to the options value.\<close>

definition apply_opts :: "('a \<Rightarrow> 'a) list \<Rightarrow> 'a \<Rightarrow> 'a" where
  "apply_opts os x = fold (\<lambda>o' v. o' v) os x"

definition NewBroker :: "env \<Rightarrow> (Options \<Rightarrow> Options) list \<Rightarrow> nsqBroker" where
  "NewBroker E os =
     (let options = apply_opts os \<lparr>Addrs = [], Codec = NewCodec E, Context = Some []\<rparr>;
          addrs = filter (\<lambda>addr. length addr > 0) (Addrs options);
          addrs' = (if length addrs = 0 then [''127.0.0.1:4150''] else addrs)
      in \<lparr>nsqdTCPAddrs = addrs', lookupdHTTPAddrs = [], opts = options,
          config = NewConfig E, running = False, p = [], c = []\<rparr>)"

text \<open>
  \<open>initByContext\<close> calls \<open>ctx.Value\<close>; on a nil context that is a nil dereference.
\<close>

definition initByContext :: "env \<Rightarrow> nsqBroker \<Rightarrow> go_context option \<Rightarrow> result \<times> nsqBroker" where
  "initByContext E n ctx =
     (case ctx of
        None \<Rightarrow> (Panic, n)
      | Some cx \<Rightarrow>
          (let n1 = (case Value cx lookupdHTTPAddrsKey of
                       Some (StringsVal v) \<Rightarrow> n\<lparr>lookupdHTTPAddrs := v\<rparr>
                     | _ \<Rightarrow> n);
               n2 = (case Value cx consumerOptsKey of
                       Some (StringsVal v) \<Rightarrow>
                         n1\<lparr>config := fold (\<lambda>opt cfg. ConfigFlag_Set E cfg opt) v (config n1)\<rparr>
                     | _ \<Rightarrow> n1)
           in (Success, n2)))"

definition Init :: "env \<Rightarrow> nsqBroker \<Rightarrow> (Options \<Rightarrow> Options) list \<Rightarrow> result \<times> nsqBroker" where
  "Init E n os =
     (let n1 = n\<lparr>opts := apply_opts os (opts n)\<rparr>
      in initByContext E n1 (Context (opts n1)))"

subsection \<open>Connect\<close>

text \<open>The first loop of \<open>Connect\<close>: one producer per address, each pinged.\<close>

fun create_producers ::
  "env \<Rightarrow> nsq_Config \<Rightarrow> string list \<Rightarrow> producer list \<Rightarrow> event list
     \<Rightarrow> (error + producer list) \<times> event list" where
  "create_producers E cfg [] producers tr = (Inr producers, tr)"
| "create_producers E cfg (addr # addrs) producers tr =
     (let ev = NewProducer addr cfg in
      case call_err E tr ev of
        Some err \<Rightarrow> (Inl err, tr @ [ev])
      | None \<Rightarrow>
          (let pr = length tr; tr1 = tr @ [ev] in
           case call_err E tr1 (Producer_Ping pr) of
             Some err \<Rightarrow> (Inl err, tr1 @ [Producer_Ping pr])
           | None \<Rightarrow>
               create_producers E cfg addrs (producers @ [pr]) (tr1 @ [Producer_Ping pr])))"

text \<open>
  The second loop: a new consumer for every subscription record. The record is updated
  in place (\<open>c.c = cm\<close>) before the consumer is connected, and the error of
  \<open>ConnectToNSQLookupds\<close> is dropped. The function returns the records as the loop
  leaves them.
\<close>

fun create_consumers ::
  "env \<Rightarrow> nsqBroker \<Rightarrow> subscriber list \<Rightarrow> event list
     \<Rightarrow> error option \<times> subscriber list \<times> event list" where
  "create_consumers E n [] tr = (None, [], tr)"
| "create_consumers E n (s # ss) tr =
     (let (channel, tr1) =
            (if length (Queue (sub_opts s)) = 0
             then (NewUUID_String E tr @ ''#ephemeral'', tr @ [NewUUID])
             else (Queue (sub_opts s), tr));
          ev = NewConsumer (sub_topic s) channel (config n)
      in case call_err E tr1 ev of
           Some err \<Rightarrow> (Some err, s # ss, tr1 @ [ev])
         | None \<Rightarrow>
             (let cm = length tr1;
                  tr2 = tr1 @ [ev, AddConcurrentHandlers cm (sub_h s) (sub_n s)];
                  s' = s\<lparr>sub_c := cm\<rparr>
              in if length (lookupdHTTPAddrs n) > 0
                 then (case create_consumers E n ss
                              (tr2 @ [ConnectToNSQLookupds cm (lookupdHTTPAddrs n)]) of
                         (r, ss', tr') \<Rightarrow> (r, s' # ss', tr'))
                 else (let ev3 = ConnectToNSQDs cm (nsqdTCPAddrs n) in
                       case call_err E tr2 ev3 of
                         Some err \<Rightarrow> (Some err, s' # ss, tr2 @ [ev3])
                       | None \<Rightarrow>
                           (case create_consumers E n ss (tr2 @ [ev3]) of
                              (r, ss', tr') \<Rightarrow> (r, s' # ss', tr')))))"

definition Connect :: "env \<Rightarrow> nsqBroker \<Rightarrow> event list \<Rightarrow> result \<times> nsqBroker \<times> event list" where
  "Connect E n tr =
     (if running n then (Success, n, tr)
      else case create_producers E (config n) (nsqdTCPAddrs n) [] tr of
             (Inl err, tr1) \<Rightarrow> (Failure err, n, tr1)
           | (Inr producers, tr1) \<Rightarrow>
               (case create_consumers E n (c n) tr1 of
                  (Some err, cs, tr2) \<Rightarrow> (Failure err, n\<lparr>c := cs\<rparr>, tr2)
                | (None, cs, tr2) \<Rightarrow>
                    (Success, n\<lparr>c := cs, p := producers, running := True\<rparr>, tr2)))"

subsection \<open>Disconnect\<close>

definition stop_consumer :: "nsqBroker \<Rightarrow> subscriber \<Rightarrow> event list" where
  "stop_consumer n s =
     Consumer_Stop (sub_c s) #
       (if length (lookupdHTTPAddrs n) > 0
        then map (\<lambda>addr. DisconnectFromNSQLookupd (sub_c s) addr) (lookupdHTTPAddrs n)
        else map (\<lambda>addr. DisconnectFromNSQD (sub_c s) addr) (nsqdTCPAddrs n))"

definition Disconnect :: "nsqBroker \<Rightarrow> event list \<Rightarrow> result \<times> nsqBroker \<times> event list" where
  "Disconnect n tr =
     (if \<not> running n then (Success, n, tr)
      else (let tr1 = tr @ map Producer_Stop (p n);
                tr2 = tr1 @ concat (map (stop_consumer n) (c n))
            in (Success, n\<lparr>p := [], running := False\<rparr>, tr2)))"

subsection \<open>Publish\<close>

text \<open>
  \<open>rand.Intn\<close> panics when its argument is not positive; otherwise its result is below
  the argument. The options start from the zero value. A completion channel stored under
  \<open>asyncPublishKey\<close> may itself be nil.
\<close>

definition resolve_doneChan :: "PublishOptions \<Rightarrow> chan option" where
  "resolve_doneChan options =
     (case pub_Context options of
        None \<Rightarrow> None
      | Some cx \<Rightarrow> (case Value cx asyncPublishKey of Some (ChanVal v) \<Rightarrow> v | _ \<Rightarrow> None))"

definition resolve_delay :: "PublishOptions \<Rightarrow> int" where
  "resolve_delay options =
     (case pub_Context options of
        None \<Rightarrow> 0
      | Some cx \<Rightarrow> (case Value cx deferredPublishKey of Some (DurationVal v) \<Rightarrow> v | _ \<Rightarrow> 0))"

definition send_call :: "producer \<Rightarrow> string \<Rightarrow> string \<Rightarrow> chan option \<Rightarrow> int \<Rightarrow> event" where
  "send_call pr topic b doneChan delay =
     (case doneChan of
        Some ch \<Rightarrow>
          (if delay > 0 then Producer_DeferredPublishAsync pr topic delay b ch
           else Producer_PublishAsync pr topic b ch)
      | None \<Rightarrow>
          (if delay > 0 then Producer_DeferredPublish pr topic delay b
           else Producer_Publish pr topic b))"

definition Publish ::
  "env \<Rightarrow> nsqBroker \<Rightarrow> event list \<Rightarrow> string \<Rightarrow> Message \<Rightarrow> (PublishOptions \<Rightarrow> PublishOptions) list
     \<Rightarrow> result \<times> nsqBroker \<times> event list" where
  "Publish E n tr topic message os =
     (if length (p n) = 0 then (Panic, n, tr @ [Intn 0])
      else
        (let pr = p n ! (rand_Int E tr mod length (p n));
             tr1 = tr @ [Intn (length (p n))];
             options = apply_opts os \<lparr>pub_Context = None\<rparr>;
             doneChan = resolve_doneChan options;
             delay = resolve_delay options
         in case Marshal E (Codec (opts n)) message of
              Inl err \<Rightarrow> (Failure err, n, tr1)
            | Inr b \<Rightarrow>
                (let ev = send_call pr topic b doneChan delay
                 in (case call_err E tr1 ev of
                       Some err \<Rightarrow> (Failure err, n, tr1 @ [ev])
                     | None \<Rightarrow> (Success, n, tr1 @ [ev])))))"

subsection \<open>Subscribe, the dispatch shim, Unsubscribe\<close>

definition DefaultConcurrentHandlers :: int where
  "DefaultConcurrentHandlers = 1"

text \<open>The pair \<open>(concurrency, maxInFlight)\<close> as \<open>Subscribe\<close> resolves it.\<close>

definition resolve_concurrency :: "SubscribeOptions \<Rightarrow> int \<times> int" where
  "resolve_concurrency options =
     (case sub_Context options of
        None \<Rightarrow> (DefaultConcurrentHandlers, DefaultConcurrentHandlers)
      | Some cx \<Rightarrow>
          (let (concurrency, maxInFlight) =
                 (case Value cx concurrentHandlerKey of
                    Some (IntVal v) \<Rightarrow> (v, v)
                  | _ \<Rightarrow> (DefaultConcurrentHandlers, DefaultConcurrentHandlers))
           in case Value cx maxInFlightKey of
                Some (IntVal v) \<Rightarrow> (concurrency, v)
              | _ \<Rightarrow> (concurrency, maxInFlight)))"

definition Subscribe ::
  "env \<Rightarrow> nsqBroker \<Rightarrow> event list \<Rightarrow> string \<Rightarrow> handler
     \<Rightarrow> (SubscribeOptions \<Rightarrow> SubscribeOptions) list
     \<Rightarrow> (error + nat) \<times> nsqBroker \<times> event list" where
  "Subscribe E n tr topic hdl os =
     (let options = apply_opts os \<lparr>AutoAck = True, Queue = [], sub_Context = None\<rparr>;
          (concurrency, maxInFlight) = resolve_concurrency options;
          (channel, tr1) =
            (if length (Queue options) = 0
             then (NewUUID_String E tr @ ''#ephemeral'', tr @ [NewUUID])
             else (Queue options, tr));
          config' = (config n)\<lparr>MaxInFlight := maxInFlight\<rparr>;
          ev = NewConsumer topic channel config'
      in case call_err E tr1 ev of
           Some err \<Rightarrow> (Inl err, n, tr1 @ [ev])
         | None \<Rightarrow>
             (let cm = length tr1;
                  h = \<lparr>h_options = options, h_handler = hdl, h_topic = topic\<rparr>;
                  tr2 = tr1 @ [ev, AddConcurrentHandlers cm h concurrency];
                  ev3 = (if length (lookupdHTTPAddrs n) > 0
                         then ConnectToNSQLookupds cm (lookupdHTTPAddrs n)
                         else ConnectToNSQDs cm (nsqdTCPAddrs n))
              in case call_err E tr2 ev3 of
                   Some err \<Rightarrow> (Inl err, n, tr2 @ [ev3])
                 | None \<Rightarrow>
                     (let sub = \<lparr>sub_topic = topic, sub_opts = options, sub_c = cm,
                                 sub_h = h, sub_n = concurrency\<rparr>
                      in (Inr (length (c n)), n\<lparr>c := c n @ [sub]\<rparr>, tr2 @ [ev3]))))"

text \<open>
  The body of the closure \<open>h\<close>, run by the client on a raw message \<open>nm\<close>. It reads the
  codec from the broker at the time of the delivery.
\<close>

definition HandlerFunc_call ::
  "env \<Rightarrow> nsqBroker \<Rightarrow> HandlerFunc \<Rightarrow> nsq_Message \<Rightarrow> event list \<Rightarrow> error option \<times> event list" where
  "HandlerFunc_call E n h nm tr =
     (let tr1 = (if \<not> AutoAck (h_options h) then tr @ [DisableAutoResponse nm] else tr)
      in case Unmarshal E (Codec (opts n)) (nsq_Body nm) of
           Inl err \<Rightarrow> (Some err, tr1)
         | Inr m \<Rightarrow>
             (let pub = \<lparr>pub_topic = h_topic h, pub_m = m, pub_nm = nm,
                         pub_opts = \<lparr>pub_Context = None\<rparr>\<rparr>;
                  tr2 = tr1 @ [HandlerCall (h_handler h) pub]
              in case run_handler E tr2 (h_handler h) pub of
                   (r, evs) \<Rightarrow> (r, tr2 @ evs)))"

text \<open>
  \<open>Unsubscribe\<close> on the subscriber with index \<open>i\<close>; a subscriber that \<open>Subscribe\<close> did
  not return is the nil pointer.
\<close>

definition Unsubscribe :: "nsqBroker \<Rightarrow> nat \<Rightarrow> event list \<Rightarrow> result \<times> nsqBroker \<times> event list" where
  "Unsubscribe n i tr =
     (if i < length (c n) then (Success, n, tr @ [Consumer_Stop (sub_c (c n ! i))])
      else (Panic, n, tr))"

subsection \<open>The states a broker can be in\<close>

text \<open>
  A broker made by \<open>NewBroker\<close> with the options \<open>os\<close> changes by its public
  operations only, whatever they return; the client delivers messages to the shims in
  between.
\<close>

inductive reachable ::
  "env \<Rightarrow> (Options \<Rightarrow> Options) list \<Rightarrow> nsqBroker \<Rightarrow> event list \<Rightarrow> bool"
  for E :: env and os :: "(Options \<Rightarrow> Options) list" where
  reach_NewBroker: "reachable E os (NewBroker E os) tr"
| reach_Init: "reachable E os n tr \<Longrightarrow> Init E n ios = (r, n') \<Longrightarrow> reachable E os n' tr"
| reach_Connect:
    "reachable E os n tr \<Longrightarrow> Connect E n tr = (r, n', tr') \<Longrightarrow> reachable E os n' tr'"
| reach_Disconnect:
    "reachable E os n tr \<Longrightarrow> Disconnect n tr = (r, n', tr') \<Longrightarrow> reachable E os n' tr'"
| reach_Publish:
    "reachable E os n tr \<Longrightarrow> Publish E n tr topic message pos = (r, n', tr') \<Longrightarrow>
       reachable E os n' tr'"
| reach_Subscribe:
    "reachable E os n tr \<Longrightarrow> Subscribe E n tr topic hdl sos = (sr, n', tr') \<Longrightarrow>
       reachable E os n' tr'"
| reach_Unsubscribe:
    "reachable E os n tr \<Longrightarrow> Unsubscribe n i tr = (r, n', tr') \<Longrightarrow> reachable E os n' tr'"
| reach_delivery:
    "reachable E os n tr \<Longrightarrow> HandlerFunc_call E n h nm tr = (er, tr') \<Longrightarrow>
       reachable E os n tr'"

subsection \<open>Notions used in the properties\<close>

text \<open>The addresses configured with the options \<open>os\<close>: the non-empty ones.\<close>

definition configured_addrs :: "env \<Rightarrow> (Options \<Rightarrow> Options) list \<Rightarrow> string list" where
  "configured_addrs E os =
     filter (\<lambda>addr. length addr > 0)
       (Addrs (apply_opts os \<lparr>Addrs = [], Codec = NewCodec E, Context = Some []\<rparr>))"

text \<open>
  What holds of a broker between operations: the address list is never empty, and the
  producer list is either empty (not running) or has one handle per address (running).
\<close>

definition broker_inv :: "nsqBroker \<Rightarrow> bool" where
  "broker_inv n =
     (nsqdTCPAddrs n \<noteq> [] \<and>
      (if running n then length (p n) = length (nsqdTCPAddrs n) else p n = []))"

text \<open>A subscription record without its consumer handle.\<close>

definition forget_consumer :: "subscriber \<Rightarrow> subscriber" where
  "forget_consumer s = s\<lparr>sub_c := 0\<rparr>"




text \<open>
  The concurrency and the max-in-flight value in the words of the specification: the
  concurrency is the option if supplied and 1 otherwise; max-in-flight is the option if
  supplied and the concurrency otherwise.
\<close>

definition supplied_int :: "SubscribeOptions \<Rightarrow> ctxkey \<Rightarrow> int option" where
  "supplied_int options k =
     (case sub_Context options of
        None \<Rightarrow> None
      | Some cx \<Rightarrow> (case Value cx k of Some (IntVal v) \<Rightarrow> Some v | _ \<Rightarrow> None))"

definition spec_concurrency :: "SubscribeOptions \<Rightarrow> int" where
  "spec_concurrency options =
     (case supplied_int options concurrentHandlerKey of Some v \<Rightarrow> v | None \<Rightarrow> 1)"

definition spec_maxInFlight :: "SubscribeOptions \<Rightarrow> int" where
  "spec_maxInFlight options =
     (case supplied_int options maxInFlightKey of
        Some v \<Rightarrow> v
      | None \<Rightarrow> spec_concurrency options)"

subsection \<open>Example environments\<close>

text \<open>
  An environment in which every call succeeds, every UUID is new, and the codec carries
  the body; and one in which connecting any consumer but the first to nsqd fails.
\<close>

definition example_env :: env where
  "example_env =
     \<lparr>call_err = (\<lambda>tr ev. None),
      NewUUID_String = (\<lambda>tr. replicate (length tr) CHR ''u''),
      rand_Int = (\<lambda>tr. length tr),
      NewConfig = \<lparr>MaxInFlight = 1, other_settings = []\<rparr>,
      ConfigFlag_Set = (\<lambda>cfg opt. cfg\<lparr>other_settings := other_settings cfg @ [opt]\<rparr>),
      NewCodec = 0,
      Marshal = (\<lambda>cd m. Inr (Body m)),
      Unmarshal = (\<lambda>cd b. if b = [] then Inl (Error ''empty body'')
                           else Inr \<lparr>Header = [], Body = b\<rparr>),
      run_handler = (\<lambda>tr hdl pub. (None, []))\<rparr>"

definition refusing_env :: env where
  "refusing_env =
     example_env\<lparr>call_err :=
       (\<lambda>tr ev. case ev of
                   ConnectToNSQDs cm addrs \<Rightarrow>
                     (if cm = 0 then None else Some (Error ''connection refused''))
                 | _ \<Rightarrow> None)\<rparr>"


text \<open>
  Options and states of the examples: a broker configured with two addresses, before and
  after \<open>Connect\<close>; and a broker with one subscription on the queue \<open>q\<close>, made before
  any \<open>Connect\<close>.
\<close>

definition two_addrs :: "Options \<Rightarrow> Options" where
  "two_addrs options = options\<lparr>Addrs := [''a:4150'', ''b:4150'']\<rparr>"

definition in_queue :: "string \<Rightarrow> SubscribeOptions \<Rightarrow> SubscribeOptions" where
  "in_queue q options = options\<lparr>Queue := q\<rparr>"

definition example_broker :: nsqBroker where
  "example_broker = NewBroker example_env [two_addrs]"

definition connected_broker :: nsqBroker where
  "connected_broker = example_broker\<lparr>p := [0, 2], running := True\<rparr>"

definition connected_trace :: "event list" where
  "connected_trace =
     [NewProducer ''a:4150'' (NewConfig example_env), Producer_Ping 0,
      NewProducer ''b:4150'' (NewConfig example_env), Producer_Ping 2]"

definition orders_shim :: HandlerFunc where
  "orders_shim =
     \<lparr>h_options = \<lparr>AutoAck = True, Queue = ''q'', sub_Context = None\<rparr>,
      h_handler = 7, h_topic = ''orders''\<rparr>"

definition orders_record :: "consumer \<Rightarrow> subscriber" where
  "orders_record cm =
     \<lparr>sub_topic = ''orders'',
      sub_opts = \<lparr>AutoAck = True, Queue = ''q'', sub_Context = None\<rparr>,
      sub_c = cm, sub_h = orders_shim, sub_n = 1\<rparr>"

definition subscribed_broker :: nsqBroker where
  "subscribed_broker = (NewBroker refusing_env [])\<lparr>c := [orders_record 0]\<rparr>"

definition subscribed_trace :: "event list" where
  "subscribed_trace =
     [NewConsumer ''orders'' ''q'' (NewConfig refusing_env),
      AddConcurrentHandlers 0 orders_shim 1,
      ConnectToNSQDs 0 [''127.0.0.1:4150'']]"







text \<open>
  Option functions, a subscription with explicit acknowledgement, concurrency 4 and
  max-in-flight 9, and a raw message.
\<close>

definition manual_ack :: "SubscribeOptions \<Rightarrow> SubscribeOptions" where
  "manual_ack options = options\<lparr>AutoAck := False\<rparr>"

definition with_int :: "ctxkey \<Rightarrow> int \<Rightarrow> SubscribeOptions \<Rightarrow> SubscribeOptions" where
  "with_int k v options =
     options\<lparr>sub_Context :=
       Some ((k, IntVal v) # (case sub_Context options of None \<Rightarrow> [] | Some cx \<Rightarrow> cx))\<rparr>"


definition manual_options :: SubscribeOptions where
  "manual_options =
     \<lparr>AutoAck = False, Queue = ''q'',
      sub_Context = Some [(maxInFlightKey, IntVal 9), (concurrentHandlerKey, IntVal 4)]\<rparr>"

definition manual_shim :: HandlerFunc where
  "manual_shim = \<lparr>h_options = manual_options, h_handler = 7, h_topic = ''orders''\<rparr>"

definition manual_broker :: nsqBroker where
  "manual_broker =
     example_broker\<lparr>c := [\<lparr>sub_topic = ''orders'', sub_opts = manual_options, sub_c = 0,
                              sub_h = manual_shim, sub_n = 4\<rparr>]\<rparr>"

definition manual_trace :: "event list" where
  "manual_trace =
     [NewConsumer ''orders'' ''q'' \<lparr>MaxInFlight = 9, other_settings = []\<rparr>,
      AddConcurrentHandlers 0 manual_shim 4,
      ConnectToNSQDs 0 [''a:4150'', ''b:4150'']]"

definition raw_message :: "string \<Rightarrow> nsq_Message" where
  "raw_message b = \<lparr>nsq_ID = ''0123456789abcdef'', nsq_Body = b\<rparr>"

section \<open>Properties\<close>

subsection \<open>The two loops of Connect\<close>

lemma create_producers_length:
  "create_producers E cfg addrs producers tr = (Inr ps, tr') \<Longrightarrow>
     length ps = length producers + length addrs"
  by (induction addrs arbitrary: producers tr)
     (auto simp: Let_def split: option.splits)

lemma create_producers_error:
  "create_producers E cfg addrs producers tr = (Inl err, tr') \<Longrightarrow>
     tr' \<noteq> [] \<and> call_err E (butlast tr') (last tr') = Some err"
  by (induction addrs arbitrary: producers tr)
     (auto simp: Let_def butlast_append split: option.splits)

lemma create_consumers_records:
  "create_consumers E n ss tr = (r, ss', tr') \<Longrightarrow>
     map forget_consumer ss' = map forget_consumer ss"
  by (induction ss arbitrary: tr r ss' tr')
     (auto simp: Let_def forget_consumer_def split: option.splits if_splits prod.splits)

lemma create_consumers_error:
  "create_consumers E n ss tr = (Some err, ss', tr') \<Longrightarrow>
     tr' \<noteq> [] \<and> call_err E (butlast tr') (last tr') = Some err"
  by (induction ss arbitrary: tr ss' tr')
     (auto simp: Let_def butlast_append split: option.splits if_splits prod.splits)

lemma NewBroker_inv: "broker_inv (NewBroker E os)"
  by (simp add: NewBroker_def broker_inv_def Let_def)

lemma Init_inv: "broker_inv n \<Longrightarrow> Init E n os = (r, n') \<Longrightarrow> broker_inv n'"
  by (auto simp: Init_def initByContext_def broker_inv_def Let_def
           split: option.splits ctxval.splits)

lemma Connect_inv: "broker_inv n \<Longrightarrow> Connect E n tr = (r, n', tr') \<Longrightarrow> broker_inv n'"
  by (auto simp: Connect_def broker_inv_def dest: create_producers_length
           split: if_splits prod.splits sum.splits option.splits)

lemma Disconnect_inv: "broker_inv n \<Longrightarrow> Disconnect n tr = (r, n', tr') \<Longrightarrow> broker_inv n'"
  by (auto simp: Disconnect_def broker_inv_def Let_def split: if_splits)

lemma Publish_state: "Publish E n tr topic message os = (r, n', tr') \<Longrightarrow> n' = n"
  by (auto simp: Publish_def Let_def split: if_splits sum.splits option.splits)

lemma Subscribe_state:
  "Subscribe E n tr topic hdl os = (sr, n', tr') \<Longrightarrow> \<exists>cs. n' = n\<lparr>c := cs\<rparr>"
  by (auto simp: Subscribe_def Let_def split: if_splits prod.splits option.splits
           intro: exI[of _ "c n"])

lemma Unsubscribe_state: "Unsubscribe n i tr = (r, n', tr') \<Longrightarrow> n' = n"
  by (auto simp: Unsubscribe_def split: if_splits)

lemma reachable_inv: "reachable E os n tr \<Longrightarrow> broker_inv n"
proof (induction rule: reachable.induct)
  case (reach_NewBroker tr)
  show ?case by (rule NewBroker_inv)
next
  case (reach_Init n tr ios r n')
  then show ?case by (blast intro: Init_inv)
next
  case (reach_Connect n tr r n' tr')
  then show ?case by (blast intro: Connect_inv)
next
  case (reach_Disconnect n tr r n' tr')
  then show ?case by (blast intro: Disconnect_inv)
next
  case (reach_Publish n tr topic message pos r n' tr')
  then show ?case by (auto dest: Publish_state)
next
  case (reach_Subscribe n tr topic hdl sos sr n' tr')
  from Subscribe_state[OF reach_Subscribe.hyps(2)] obtain cs where "n' = n\<lparr>c := cs\<rparr>" ..
  with reach_Subscribe.IH show ?case by (simp add: broker_inv_def)
next
  case (reach_Unsubscribe n tr i r n' tr')
  then show ?case by (auto dest: Unsubscribe_state)
next
  case (reach_delivery n tr h nm er tr')
  then show ?case by simp
qed

lemma NewBroker_addrs:
  "nsqdTCPAddrs (NewBroker E os) =
     (if configured_addrs E os = [] then [''127.0.0.1:4150''] else configured_addrs E os)"
  by (simp add: NewBroker_def configured_addrs_def Let_def)

lemma Init_addrs: "Init E n ios = (r, n') \<Longrightarrow> nsqdTCPAddrs n' = nsqdTCPAddrs n"
  by (auto simp: Init_def initByContext_def Let_def split: option.splits ctxval.splits)

lemma Connect_addrs: "Connect E n tr = (r, n', tr') \<Longrightarrow> nsqdTCPAddrs n' = nsqdTCPAddrs n"
  by (auto simp: Connect_def split: if_splits prod.splits sum.splits option.splits)

lemma Disconnect_addrs: "Disconnect n tr = (r, n', tr') \<Longrightarrow> nsqdTCPAddrs n' = nsqdTCPAddrs n"
  by (auto simp: Disconnect_def Let_def split: if_splits)

lemma reachable_addrs:
  "reachable E os n tr \<Longrightarrow> nsqdTCPAddrs n = nsqdTCPAddrs (NewBroker E os)"
proof (induction rule: reachable.induct)
  case (reach_NewBroker tr)
  show ?case by simp
next
  case (reach_Init n tr ios r n')
  then show ?case by (simp add: Init_addrs)
next
  case (reach_Connect n tr r n' tr')
  then show ?case by (simp add: Connect_addrs)
next
  case (reach_Disconnect n tr r n' tr')
  then show ?case by (simp add: Disconnect_addrs)
next
  case (reach_Publish n tr topic message pos r n' tr')
  then show ?case by (auto dest: Publish_state)
next
  case (reach_Subscribe n tr topic hdl sos sr n' tr')
  from Subscribe_state[OF reach_Subscribe.hyps(2)] obtain cs where "n' = n\<lparr>c := cs\<rparr>" ..
  with reach_Subscribe.IH show ?case by simp
next
  case (reach_Unsubscribe n tr i r n' tr')
  then show ?case by (auto dest: Unsubscribe_state)
next
  case (reach_delivery n tr h nm er tr')
  then show ?case by simp
qed







subsection \<open>Subscribe and Disconnect, unfolded\<close>

lemma Subscribe_unfold:
  assumes "options = apply_opts os \<lparr>AutoAck = True, Queue = [], sub_Context = None\<rparr>"
    and "evs = (if length (Queue options) = 0 then [NewUUID] else [])"
    and "channel = (if length (Queue options) = 0 then NewUUID_String E tr @ ''#ephemeral''
                    else Queue options)"
    and "ev = NewConsumer topic channel
                ((config n)\<lparr>MaxInFlight := snd (resolve_concurrency options)\<rparr>)"
    and "cm = length (tr @ evs)"
    and "h = \<lparr>h_options = options, h_handler = hdl, h_topic = topic\<rparr>"
    and "ev2 = AddConcurrentHandlers cm h (fst (resolve_concurrency options))"
    and "ev3 = (if length (lookupdHTTPAddrs n) > 0
                then ConnectToNSQLookupds cm (lookupdHTTPAddrs n)
                else ConnectToNSQDs cm (nsqdTCPAddrs n))"
    and "s = \<lparr>sub_topic = topic, sub_opts = options, sub_c = cm, sub_h = h,
              sub_n = fst (resolve_concurrency options)\<rparr>"
  shows "Subscribe E n tr topic hdl os =
     (case call_err E (tr @ evs) ev of
        Some err \<Rightarrow> (Inl err, n, tr @ evs @ [ev])
      | None \<Rightarrow>
          (case call_err E (tr @ evs @ [ev, ev2]) ev3 of
             Some err \<Rightarrow> (Inl err, n, tr @ evs @ [ev, ev2, ev3])
           | None \<Rightarrow> (Inr (length (c n)), n\<lparr>c := c n @ [s]\<rparr>, tr @ evs @ [ev, ev2, ev3])))"
proof (cases "length (Queue options) = 0")
  case True
  then show ?thesis
    unfolding assms(2-) by (simp add: Subscribe_def Let_def case_prod_beta assms(1)[symmetric] split: option.splits)
next
  case False
  then show ?thesis
    unfolding assms(2-) by (simp add: Subscribe_def Let_def case_prod_beta assms(1)[symmetric] split: option.splits)
qed

lemma Subscribe_success:
  assumes "Subscribe E n tr topic hdl os = (Inr i, n1, tr1)"
  shows "i = length (c n) \<and>
         (\<exists>cm. n1 = n\<lparr>c := c n @
            [\<lparr>sub_topic = topic,
              sub_opts = apply_opts os \<lparr>AutoAck = True, Queue = [], sub_Context = None\<rparr>,
              sub_c = cm,
              sub_h = \<lparr>h_options = apply_opts os \<lparr>AutoAck = True, Queue = [], sub_Context = None\<rparr>,
                       h_handler = hdl, h_topic = topic\<rparr>,
              sub_n = fst (resolve_concurrency
                            (apply_opts os \<lparr>AutoAck = True, Queue = [], sub_Context = None\<rparr>))\<rparr>]\<rparr>)"
  using assms
  by (auto simp: Subscribe_def Let_def split: prod.splits option.splits if_splits)


lemma resolve_concurrency_spec:
  "resolve_concurrency options = (spec_concurrency options, spec_maxInFlight options)"
  by (simp add: resolve_concurrency_def spec_concurrency_def spec_maxInFlight_def
        supplied_int_def DefaultConcurrentHandlers_def Let_def
      split: option.splits ctxval.splits)

subsection \<open>The examples, evaluated\<close>

lemma example_broker_eq:
  "example_broker =
     \<lparr>nsqdTCPAddrs = [''a:4150'', ''b:4150''], lookupdHTTPAddrs = [],
      opts = \<lparr>Addrs = [''a:4150'', ''b:4150''], Codec = 0, Context = Some []\<rparr>,
      config = \<lparr>MaxInFlight = 1, other_settings = []\<rparr>,
      running = False, p = [], c = []\<rparr>"
  by (simp add: Let_def example_broker_def NewBroker_def apply_opts_def two_addrs_def example_env_def)

lemma example_Connect:
  "Connect example_env example_broker [] = (Success, connected_broker, connected_trace)"
  by (simp add: Let_def Connect_def example_broker_eq connected_broker_def connected_trace_def
        example_env_def)

lemma example_reachable: "reachable example_env [two_addrs] connected_broker connected_trace"
  using reach_Connect[OF reach_NewBroker example_Connect[unfolded example_broker_def]] .

lemma refusing_Subscribe:
  "Subscribe refusing_env (NewBroker refusing_env []) [] ''orders'' 7 [in_queue ''q''] =
     (Inr 0, subscribed_broker, subscribed_trace)"
  by (simp add: Let_def Subscribe_def NewBroker_def apply_opts_def in_queue_def resolve_concurrency_def
        DefaultConcurrentHandlers_def subscribed_broker_def subscribed_trace_def
        orders_record_def orders_shim_def refusing_env_def example_env_def)

lemma refusing_Connect:
  "Connect refusing_env subscribed_broker subscribed_trace =
     (Failure (Error ''connection refused''),
      subscribed_broker\<lparr>c := [orders_record 5]\<rparr>,
      subscribed_trace @
        [NewProducer ''127.0.0.1:4150'' (NewConfig refusing_env), Producer_Ping 3,
         NewConsumer ''orders'' ''q'' (NewConfig refusing_env),
         AddConcurrentHandlers 5 orders_shim 1,
         ConnectToNSQDs 5 [''127.0.0.1:4150'']])"
  by (simp add: Let_def Connect_def NewBroker_def apply_opts_def subscribed_broker_def
        subscribed_trace_def orders_record_def orders_shim_def refusing_env_def example_env_def)




lemma manual_Subscribe:
  "Subscribe example_env example_broker [] ''orders'' 7
     [in_queue ''q'', manual_ack, with_int concurrentHandlerKey 4, with_int maxInFlightKey 9] =
     (Inr 0, manual_broker, manual_trace)"
  by (simp add: Let_def Subscribe_def apply_opts_def in_queue_def manual_ack_def with_int_def
        resolve_concurrency_def Value_def DefaultConcurrentHandlers_def example_broker_eq
        manual_broker_def manual_trace_def manual_shim_def manual_options_def example_env_def)

subsection \<open>Publish on an empty pool\<close>

text \<open>
  C1. The claim: with an empty producer pool, \<open>Publish\<close> fails with an error. The code
  has no guard: \<open>rand.Intn(len(n.p))\<close> is called with 0 and panics, so \<open>Publish\<close>
  returns no error value. No element of the pool is indexed and nothing is sent. The
  theorem states what the code does.
\<close>

theorem Publish_empty_pool_panics:
  "p n = [] \<Longrightarrow> Publish E n tr topic message os = (Panic, n, tr @ [Intn 0])"
  by (simp add: Publish_def)

theorem Publish_empty_pool_panics_witness:
  "p (NewBroker example_env []) = [] \<and>
   Publish example_env (NewBroker example_env []) [] ''orders'' \<lparr>Header = [], Body = ''x''\<rparr> [] =
     (Panic, NewBroker example_env [], [Intn 0])"
  using Publish_empty_pool_panics[of "NewBroker example_env []" example_env "[]" "''orders''"
          "\<lparr>Header = [], Body = ''x''\<rparr>" "[]"]
  by (simp add: NewBroker_def apply_opts_def)

subsection \<open>Connect\<close>

text \<open>
  C5. \<open>Connect\<close> is idempotent: on a running broker it returns success, changes nothing
  and makes no call (the trace is the same); so a \<open>Connect\<close> that follows a successful
  \<open>Connect\<close> succeeds and does no work.
\<close>

theorem Connect_idempotent:
  "(running n \<longrightarrow> Connect E n tr = (Success, n, tr)) \<and>
   (Connect E n tr = (Success, n', tr') \<longrightarrow> Connect E n' tr' = (Success, n', tr'))"
  by (auto simp: Connect_def split: if_splits prod.splits sum.splits option.splits)

theorem Connect_idempotent_witness:
  "running connected_broker \<and>
   Connect example_env connected_broker connected_trace =
     (Success, connected_broker, connected_trace) \<and>
   Connect example_env example_broker [] = (Success, connected_broker, connected_trace)"
  using Connect_idempotent[where n = connected_broker and E = example_env
          and tr = connected_trace]
        Connect_idempotent[where n = example_broker and E = example_env and tr = "[]"
          and n' = connected_broker and tr' = connected_trace]
        example_Connect
  by (simp add: connected_broker_def)

text \<open>
  C3. In every state a broker reaches from \<open>NewBroker\<close> by its public operations
  (\<open>Init\<close>, \<open>Connect\<close>, \<open>Disconnect\<close>, \<open>Publish\<close>, \<open>Subscribe\<close>, \<open>Unsubscribe\<close>,
  whatever they return) and by deliveries, \<open>running\<close> is true iff the producer list is
  not empty. Operations are taken one at a time, as the lock makes \<open>Connect\<close> and
  \<open>Disconnect\<close>, the only writers of the two fields.
\<close>

theorem running_iff_producers:
  "reachable E os n tr \<Longrightarrow> running n = (p n \<noteq> [])"
  using reachable_inv[of E os n tr] by (auto simp: broker_inv_def split: if_splits)

theorem running_iff_producers_witness:
  "reachable example_env [two_addrs] connected_broker connected_trace \<and>
   running connected_broker \<and> p connected_broker = [0, 2]"
  using running_iff_producers[OF example_reachable] example_reachable
  by (simp add: connected_broker_def)

text \<open>
  C4. The address list of a broker is never empty, and it is the list of the configured
  addresses when there is one. From any reachable state a successful \<open>Connect\<close> leaves
  the broker running with as many producers as addresses; a \<open>Disconnect\<close>, in whatever
  state the broker is by then, succeeds and leaves the broker not running, with no
  producer.
\<close>

theorem Connect_then_Disconnect:
  assumes "reachable E os n tr"
    and "Connect E n tr = (Success, n1, tr1)"
    and "reachable E os n' tr'"
    and "Disconnect n' tr' = (r, n2, tr2)"
  shows "nsqdTCPAddrs n1 \<noteq> [] \<and>
         (configured_addrs E os \<noteq> [] \<longrightarrow> nsqdTCPAddrs n1 = configured_addrs E os) \<and>
         running n1 \<and> length (p n1) = length (nsqdTCPAddrs n1) \<and>
         r = Success \<and> \<not> running n2 \<and> length (p n2) = 0"
proof -
  have inv: "broker_inv n" using assms(1) by (rule reachable_inv)
  have inv1: "broker_inv n1" using inv assms(2) by (rule Connect_inv)
  have "reachable E os n1 tr1" using assms(1,2) by (rule reach_Connect)
  then have addrs: "nsqdTCPAddrs n1 = nsqdTCPAddrs (NewBroker E os)"
    by (rule reachable_addrs)
  have conf: "configured_addrs E os \<noteq> [] \<longrightarrow> nsqdTCPAddrs n1 = configured_addrs E os"
    by (simp add: addrs NewBroker_addrs)
  have run1: "running n1"
    using assms(2)
    by (auto simp: Connect_def split: if_splits prod.splits sum.splits option.splits)
  have inv': "broker_inv n'" using assms(3) by (rule reachable_inv)
  have "r = Success \<and> \<not> running n2 \<and> length (p n2) = 0"
    using assms(4) inv' by (auto simp: Disconnect_def Let_def broker_inv_def split: if_splits)
  with inv1 run1 conf show ?thesis by (simp add: broker_inv_def)
qed

theorem Connect_then_Disconnect_witness:
  "reachable example_env [two_addrs] example_broker [] \<and>
   configured_addrs example_env [two_addrs] = [''a:4150'', ''b:4150''] \<and>
   Connect example_env example_broker [] = (Success, connected_broker, connected_trace) \<and>
   reachable example_env [two_addrs] connected_broker connected_trace \<and>
   Disconnect connected_broker connected_trace =
     (Success, example_broker, connected_trace @ [Producer_Stop 0, Producer_Stop 2]) \<and>
   nsqdTCPAddrs connected_broker = [''a:4150'', ''b:4150''] \<and> p connected_broker = [0, 2] \<and>
   running connected_broker \<and> \<not> running example_broker \<and> length (p example_broker) = 0"
proof -
  have r: "reachable example_env [two_addrs] example_broker []"
    unfolding example_broker_def by (rule reach_NewBroker)
  have a: "configured_addrs example_env [two_addrs] = [''a:4150'', ''b:4150'']"
    by (simp add: configured_addrs_def apply_opts_def two_addrs_def)
  have d: "Disconnect connected_broker connected_trace =
     (Success, example_broker, connected_trace @ [Producer_Stop 0, Producer_Stop 2])"
    by (simp add: Disconnect_def connected_broker_def example_broker_eq)
  show ?thesis
    using Connect_then_Disconnect[OF r example_Connect example_reachable d]
          r a example_Connect example_reachable d
    by (simp add: connected_broker_def example_broker_eq)
qed

text \<open>
  C2, as amended. When \<open>Connect\<close> fails, the broker was not running and is not running,
  the error is the one of the last call made, the producer list and everything but the
  subscription list are as before, and every subscription record is as before up to its
  consumer handle. When the failure is in the creation or the ping of a producer, the
  state is exactly as before.
\<close>

theorem Connect_failure:
  assumes "Connect E n tr = (Failure err, n', tr')"
  shows "\<not> running n \<and> \<not> running n' \<and> p n' = p n \<and> n' = n\<lparr>c := c n'\<rparr> \<and>
         map forget_consumer (c n') = map forget_consumer (c n) \<and>
         tr' \<noteq> [] \<and> call_err E (butlast tr') (last tr') = Some err \<and>
         ((\<exists>e t. create_producers E (config n) (nsqdTCPAddrs n) [] tr = (Inl e, t)) \<longrightarrow> n' = n)"
proof -
  have nr: "\<not> running n" using assms by (auto simp: Connect_def split: if_splits)
  show ?thesis
  proof (cases "create_producers E (config n) (nsqdTCPAddrs n) [] tr")
    case (Pair pr tr1)
    show ?thesis
    proof (cases pr)
      case (Inl e)
      with Pair assms nr have "n' = n" "tr' = tr1" "e = err"
        by (auto simp: Connect_def)
      with Pair Inl nr create_producers_error[of E "config n" "nsqdTCPAddrs n" "[]" tr err tr1]
      show ?thesis by simp
    next
      case (Inr ps)
      obtain r cs tr2 where cc: "create_consumers E n (c n) tr1 = (r, cs, tr2)"
        by (cases "create_consumers E n (c n) tr1") auto
      with Pair Inr assms nr have r: "r = Some err" and n': "n' = n\<lparr>c := cs\<rparr>" and t: "tr' = tr2"
        by (auto simp: Connect_def split: option.splits)
      from create_consumers_records[OF cc] create_consumers_error[OF cc[unfolded r]]
      show ?thesis using nr n' t Pair Inr by simp
    qed
  qed
qed

theorem Connect_failure_witness:
  "Connect refusing_env subscribed_broker subscribed_trace =
     (Failure (Error ''connection refused''),
      subscribed_broker\<lparr>c := [orders_record 5]\<rparr>,
      subscribed_trace @
        [NewProducer ''127.0.0.1:4150'' (NewConfig refusing_env), Producer_Ping 3,
         NewConsumer ''orders'' ''q'' (NewConfig refusing_env),
         AddConcurrentHandlers 5 orders_shim 1,
         ConnectToNSQDs 5 [''127.0.0.1:4150'']]) \<and>
   \<not> running subscribed_broker \<and>
   map forget_consumer [orders_record 5] = map forget_consumer (c subscribed_broker)"
  using Connect_failure[OF refusing_Connect] refusing_Connect
  by (simp add: subscribed_broker_def)

text \<open>
  C2, as stated, fails: a subscription is made before \<open>Connect\<close>; \<open>Connect\<close> then
  creates a new consumer for it, stores it in the record, and fails to connect it. The
  failed \<open>Connect\<close> has replaced the consumer of the record.
\<close>

theorem Connect_failure_changes_records:
  "Subscribe refusing_env (NewBroker refusing_env []) [] ''orders'' 7 [in_queue ''q''] =
     (Inr 0, subscribed_broker, subscribed_trace) \<and>
   \<not> running subscribed_broker \<and>
   fst (Connect refusing_env subscribed_broker subscribed_trace) =
     Failure (Error ''connection refused'') \<and>
   sub_c (c subscribed_broker ! 0) = 0 \<and>
   sub_c (c (fst (snd (Connect refusing_env subscribed_broker subscribed_trace))) ! 0) = 5 \<and>
   fst (snd (Connect refusing_env subscribed_broker subscribed_trace)) \<noteq> subscribed_broker"
proof -
  have "orders_record 5 \<noteq> orders_record 0"
    by (simp add: orders_record_def)
  then have "c (subscribed_broker\<lparr>c := [orders_record 5]\<rparr>) \<noteq> c subscribed_broker"
    by (simp add: subscribed_broker_def)
  then have "subscribed_broker\<lparr>c := [orders_record 5]\<rparr> \<noteq> subscribed_broker"
    by metis
  then show ?thesis
    by (simp add: refusing_Subscribe refusing_Connect)
       (simp add: Let_def subscribed_broker_def NewBroker_def orders_record_def)
qed

subsection \<open>Subscriptions across Disconnect and Connect\<close>



subsection \<open>The dispatch shim\<close>

text \<open>
  C7. The shim of a subscription made by \<open>Subscribe\<close>, run on a raw message: when the
  subscription is not auto-acknowledge, the first call is \<open>DisableAutoResponse\<close> on that
  message; when the codec fails to decode the body, the shim returns the decode error and
  the handler is not called; when the codec succeeds, the caller's handler is called with
  the publication of the topic, the decoded message and the raw message, and the shim
  returns what the handler returns.
\<close>

theorem dispatch_shim:
  assumes "Subscribe E n tr topic hdl os = (Inr i, n1, tr1)"
    and "HandlerFunc_call E n' (sub_h (c n1 ! i)) nm t = (r, t')"
  shows "(\<not> AutoAck (sub_opts (c n1 ! i)) \<longrightarrow> (\<exists>evs. t' = t @ DisableAutoResponse nm # evs)) \<and>
         (\<forall>err. Unmarshal E (Codec (opts n')) (nsq_Body nm) = Inl err \<longrightarrow>
            r = Some err \<and> (\<forall>h pb. HandlerCall h pb \<notin> set (drop (length t) t'))) \<and>
         (\<forall>m. Unmarshal E (Codec (opts n')) (nsq_Body nm) = Inr m \<longrightarrow>
            (\<exists>evs pub.
               pub = \<lparr>pub_topic = topic, pub_m = m, pub_nm = nm,
                      pub_opts = \<lparr>pub_Context = None\<rparr>\<rparr> \<and>
               (evs = t \<or> evs = t @ [DisableAutoResponse nm]) \<and>
               t' = evs @ [HandlerCall hdl pub] @
                      snd (run_handler E (evs @ [HandlerCall hdl pub]) hdl pub) \<and>
               r = fst (run_handler E (evs @ [HandlerCall hdl pub]) hdl pub)))"
proof -
  define options where
    "options = apply_opts os \<lparr>AutoAck = True, Queue = [], sub_Context = None\<rparr>"
  from Subscribe_success[OF assms(1)] have
    h: "sub_h (c n1 ! i) = \<lparr>h_options = options, h_handler = hdl, h_topic = topic\<rparr>" and
    o: "sub_opts (c n1 ! i) = options"
    by (auto simp: options_def)
  show ?thesis
    using assms(2) unfolding h o
    by (auto simp: HandlerFunc_call_def Let_def split: sum.splits prod.splits if_splits)
qed

theorem dispatch_shim_witness:
  "Subscribe example_env example_broker [] ''orders'' 7
     [in_queue ''q'', manual_ack, with_int concurrentHandlerKey 4, with_int maxInFlightKey 9] =
     (Inr 0, manual_broker, manual_trace) \<and>
   HandlerFunc_call example_env manual_broker manual_shim (raw_message ''x'') manual_trace =
     (None, manual_trace @
        [DisableAutoResponse (raw_message ''x''),
         HandlerCall 7 \<lparr>pub_topic = ''orders'', pub_m = \<lparr>Header = [], Body = ''x''\<rparr>,
                        pub_nm = raw_message ''x'', pub_opts = \<lparr>pub_Context = None\<rparr>\<rparr>]) \<and>
   HandlerFunc_call example_env manual_broker manual_shim (raw_message []) manual_trace =
     (Some (Error ''empty body''), manual_trace @ [DisableAutoResponse (raw_message [])])"
proof -
  have s: "sub_h (c manual_broker ! 0) = manual_shim"
    by (simp add: manual_broker_def)
  have a: "HandlerFunc_call example_env manual_broker (sub_h (c manual_broker ! 0))
      (raw_message ''x'') manual_trace =
     (None, manual_trace @
        [DisableAutoResponse (raw_message ''x''),
         HandlerCall 7 \<lparr>pub_topic = ''orders'', pub_m = \<lparr>Header = [], Body = ''x''\<rparr>,
                        pub_nm = raw_message ''x'', pub_opts = \<lparr>pub_Context = None\<rparr>\<rparr>])"
    unfolding s
    by (simp add: HandlerFunc_call_def Let_def manual_shim_def manual_options_def
          raw_message_def example_env_def)
  have b: "HandlerFunc_call example_env manual_broker (sub_h (c manual_broker ! 0))
      (raw_message []) manual_trace =
     (Some (Error ''empty body''), manual_trace @ [DisableAutoResponse (raw_message [])])"
    unfolding s
    by (simp add: HandlerFunc_call_def Let_def manual_shim_def manual_options_def
          raw_message_def example_env_def)
  show ?thesis
    using dispatch_shim[OF manual_Subscribe a] dispatch_shim[OF manual_Subscribe b]
          manual_Subscribe a b
    by (simp add: s)
qed

subsection \<open>Concurrency and max-in-flight\<close>

text \<open>
  C8. \<open>Subscribe\<close> resolves the concurrency to the option if supplied and to 1 otherwise,
  and max-in-flight to the option if supplied and to the concurrency otherwise. It always
  asks for a consumer with a copy of the configuration that carries this max-in-flight
  value, and leaves the broker's own configuration as it is. On success the record holds
  the resolved concurrency and the shim was added to the consumer with it.
\<close>

theorem Subscribe_concurrency:
  assumes "Subscribe E n tr topic hdl os = (sr, n1, tr1)"
    and "options = apply_opts os \<lparr>AutoAck = True, Queue = [], sub_Context = None\<rparr>"
  shows "resolve_concurrency options = (spec_concurrency options, spec_maxInFlight options) \<and>
         config n1 = config n \<and>
         (\<exists>evs channel evs'.
            tr1 = tr @ evs @
              [NewConsumer topic channel ((config n)\<lparr>MaxInFlight := spec_maxInFlight options\<rparr>)] @
              evs' \<and>
            (evs = [] \<or> evs = [NewUUID])) \<and>
         (\<forall>i. sr = Inr i \<longrightarrow>
            sub_n (c n1 ! i) = spec_concurrency options \<and>
            (\<exists>evs evs'.
               tr1 = tr @ evs @
                 [AddConcurrentHandlers (sub_c (c n1 ! i)) (sub_h (c n1 ! i))
                    (spec_concurrency options)] @ evs'))"
proof -
  have rc: "resolve_concurrency options = (spec_concurrency options, spec_maxInFlight options)"
    by (rule resolve_concurrency_spec)
  define channel where "channel =
     (if length (Queue options) = 0 then NewUUID_String E tr @ ''#ephemeral'' else Queue options)"
  define evs where "evs = (if length (Queue options) = 0 then [NewUUID] else [])"
  define ev where
    "ev = NewConsumer topic channel ((config n)\<lparr>MaxInFlight := spec_maxInFlight options\<rparr>)"
  have cfg: "config n1 = config n"
    using Subscribe_state[OF assms(1)] by auto
  have evs: "evs = [] \<or> evs = [NewUUID]" by (simp add: evs_def)
  show ?thesis
  proof (cases sr)
    case (Inl err)
    have "\<exists>evs'. tr1 = tr @ evs @ [ev] @ evs'"
      using assms(1) Inl
      by (auto simp: Subscribe_def Let_def rc assms(2)[symmetric] evs_def ev_def channel_def
               split: option.splits if_splits)
    with rc cfg evs Inl show ?thesis unfolding ev_def by blast
  next
    case (Inr j)
    have t: "tr1 = tr @ evs @ [ev] @
               [AddConcurrentHandlers (sub_c (c n1 ! j)) (sub_h (c n1 ! j))
                  (spec_concurrency options),
                if length (lookupdHTTPAddrs n) > 0
                then ConnectToNSQLookupds (sub_c (c n1 ! j)) (lookupdHTTPAddrs n)
                else ConnectToNSQDs (sub_c (c n1 ! j)) (nsqdTCPAddrs n)]"
      and sn: "sub_n (c n1 ! j) = spec_concurrency options"
      using assms(1) Inr
      by (auto simp: Subscribe_def Let_def rc assms(2)[symmetric] evs_def ev_def channel_def
               split: option.splits if_splits)
    have one: "\<exists>evs'. tr1 = tr @ evs @ [ev] @ evs'" using t by blast
    have "tr1 = tr @ (evs @ [ev]) @
               [AddConcurrentHandlers (sub_c (c n1 ! j)) (sub_h (c n1 ! j))
                  (spec_concurrency options)] @
               [if length (lookupdHTTPAddrs n) > 0
                then ConnectToNSQLookupds (sub_c (c n1 ! j)) (lookupdHTTPAddrs n)
                else ConnectToNSQDs (sub_c (c n1 ! j)) (nsqdTCPAddrs n)]"
      using t by simp
    then have two: "\<exists>evs0 evs'. tr1 = tr @ evs0 @
               [AddConcurrentHandlers (sub_c (c n1 ! j)) (sub_h (c n1 ! j))
                  (spec_concurrency options)] @ evs'"
      by blast
    from rc cfg evs one two sn Inr show ?thesis unfolding ev_def by blast
  qed
qed

theorem Subscribe_concurrency_witness:
  "Subscribe example_env example_broker [] ''orders'' 7
     [in_queue ''q'', manual_ack, with_int concurrentHandlerKey 4, with_int maxInFlightKey 9] =
     (Inr 0, manual_broker, manual_trace) \<and>
   manual_options =
     apply_opts [in_queue ''q'', manual_ack, with_int concurrentHandlerKey 4,
                 with_int maxInFlightKey 9]
       \<lparr>AutoAck = True, Queue = [], sub_Context = None\<rparr> \<and>
   resolve_concurrency manual_options = (4, 9) \<and>
   sub_n (c manual_broker ! 0) = 4 \<and>
   hd manual_trace = NewConsumer ''orders'' ''q'' ((config example_broker)\<lparr>MaxInFlight := 9\<rparr>)"
proof -
  have o: "manual_options =
     apply_opts [in_queue ''q'', manual_ack, with_int concurrentHandlerKey 4,
                 with_int maxInFlightKey 9]
       \<lparr>AutoAck = True, Queue = [], sub_Context = None\<rparr>"
    by (simp add: manual_options_def apply_opts_def in_queue_def manual_ack_def with_int_def)
  have v: "spec_concurrency manual_options = 4 \<and> spec_maxInFlight manual_options = 9"
    by (simp add: spec_concurrency_def spec_maxInFlight_def supplied_int_def Value_def
          manual_options_def)
  show ?thesis
    using Subscribe_concurrency[OF manual_Subscribe o] manual_Subscribe o v
    by (simp add: manual_trace_def example_broker_eq)
qed

subsection \<open>The four send operations\<close>



subsection \<open>Subscribe before Connect\<close>

text \<open>
  C10. \<open>Subscribe\<close> does not read \<open>running\<close> or the producer pool: with any other values
  of the two fields, in particular not running with an empty pool, it makes the same
  calls and returns the same result. It always asks the client for a consumer; an error it
  returns is the error of the consumer creation or of the connection of the consumer; on
  success it has created the consumer, added the shim, connected the consumer, and
  appended the record.
\<close>

theorem Subscribe_without_Connect:
  assumes "Subscribe E n tr topic hdl os = (sr, n1, tr1)"
  shows "Subscribe E (n\<lparr>running := b, p := ps\<rparr>) tr topic hdl os =
           (sr, n1\<lparr>running := b, p := ps\<rparr>, tr1) \<and>
         running n1 = running n \<and> p n1 = p n \<and>
         (\<exists>evs channel cfg evs'.
            tr1 = tr @ evs @ NewConsumer topic channel cfg # evs' \<and>
            (evs = [] \<or> evs = [NewUUID])) \<and>
         (\<forall>err. sr = Inl err \<longrightarrow>
            n1 = n \<and> tr1 \<noteq> [] \<and> call_err E (butlast tr1) (last tr1) = Some err \<and>
            ((\<exists>channel cfg. last tr1 = NewConsumer topic channel cfg) \<or>
             (\<exists>cm. last tr1 = ConnectToNSQLookupds cm (lookupdHTTPAddrs n)) \<or>
             (\<exists>cm. last tr1 = ConnectToNSQDs cm (nsqdTCPAddrs n)))) \<and>
         (\<forall>i. sr = Inr i \<longrightarrow>
            i = length (c n) \<and>
            (\<exists>s evs channel cfg.
               c n1 = c n @ [s] \<and> sub_topic s = topic \<and> h_handler (sub_h s) = hdl \<and>
               tr1 = tr @ evs @
                 [NewConsumer topic channel cfg,
                  AddConcurrentHandlers (sub_c s) (sub_h s) (sub_n s),
                  (if length (lookupdHTTPAddrs n) > 0
                   then ConnectToNSQLookupds (sub_c s) (lookupdHTTPAddrs n)
                   else ConnectToNSQDs (sub_c s) (nsqdTCPAddrs n))]))"
    (is "?indep \<and> ?run \<and> ?pool \<and> ?creates \<and> ?errors \<and> ?success")
proof -
  define options where
    "options = apply_opts os \<lparr>AutoAck = True, Queue = [], sub_Context = None\<rparr>"
  define evs where "evs = (if length (Queue options) = 0 then [NewUUID] else [])"
  define channel where "channel =
     (if length (Queue options) = 0 then NewUUID_String E tr @ ''#ephemeral'' else Queue options)"
  define cfg where "cfg = (config n)\<lparr>MaxInFlight := snd (resolve_concurrency options)\<rparr>"
  define ev where "ev = NewConsumer topic channel cfg"
  define cm where "cm = length (tr @ evs)"
  define h where "h = \<lparr>h_options = options, h_handler = hdl, h_topic = topic\<rparr>"
  define ev2 where "ev2 = AddConcurrentHandlers cm h (fst (resolve_concurrency options))"
  define ev3 where "ev3 = (if length (lookupdHTTPAddrs n) > 0
                then ConnectToNSQLookupds cm (lookupdHTTPAddrs n)
                else ConnectToNSQDs cm (nsqdTCPAddrs n))"
  define s where "s = \<lparr>sub_topic = topic, sub_opts = options, sub_c = cm, sub_h = h,
              sub_n = fst (resolve_concurrency options)\<rparr>"
  let ?n' = "n\<lparr>running := b, p := ps\<rparr>"
  have u: "Subscribe E n tr topic hdl os =
     (case call_err E (tr @ evs) ev of
        Some err \<Rightarrow> (Inl err, n, tr @ evs @ [ev])
      | None \<Rightarrow>
          (case call_err E (tr @ evs @ [ev, ev2]) ev3 of
             Some err \<Rightarrow> (Inl err, n, tr @ evs @ [ev, ev2, ev3])
           | None \<Rightarrow> (Inr (length (c n)), n\<lparr>c := c n @ [s]\<rparr>, tr @ evs @ [ev, ev2, ev3])))"
    by (rule Subscribe_unfold[OF options_def evs_def channel_def ev_def[unfolded cfg_def]
          cm_def h_def ev2_def ev3_def s_def])
  have u': "Subscribe E ?n' tr topic hdl os =
     (case call_err E (tr @ evs) ev of
        Some err \<Rightarrow> (Inl err, ?n', tr @ evs @ [ev])
      | None \<Rightarrow>
          (case call_err E (tr @ evs @ [ev, ev2]) ev3 of
             Some err \<Rightarrow> (Inl err, ?n', tr @ evs @ [ev, ev2, ev3])
           | None \<Rightarrow> (Inr (length (c ?n')), ?n'\<lparr>c := c ?n' @ [s]\<rparr>, tr @ evs @ [ev, ev2, ev3])))"
    by (rule Subscribe_unfold[OF options_def evs_def channel_def _ cm_def h_def ev2_def _ s_def])
       (simp_all add: ev_def cfg_def ev3_def)
  have evs: "evs = [] \<or> evs = [NewUUID]" by (simp add: evs_def)
  have 2: ?run and 3: ?pool
    using Subscribe_state[OF assms] by auto
  have s_fields: "sub_topic s = topic \<and> h_handler (sub_h s) = hdl \<and> sub_c s = cm \<and>
      sub_h s = h \<and> sub_n s = fst (resolve_concurrency options)"
    by (simp add: s_def h_def)
  show ?thesis
  proof (cases "call_err E (tr @ evs) ev")
    case (Some err)
    with assms[unfolded u] have r: "sr = Inl err" "n1 = n" "tr1 = tr @ evs @ [ev]"
      by simp_all
    have 1: ?indep unfolding u' r by (simp add: Some)
    have 4: ?creates
      using evs unfolding r ev_def
      by (intro exI[of _ evs] exI[of _ channel] exI[of _ cfg] exI[of _ "[]"]) simp
    have 5: ?errors
      unfolding r using Some by (simp add: butlast_append ev_def)
    have 6: ?success by (simp add: r(1))
    show ?thesis by (rule conjI[OF 1 conjI[OF 2 conjI[OF 3 conjI[OF 4 conjI[OF 5 6]]]]])
  next
    case None
    note first = None
    show ?thesis
    proof (cases "call_err E (tr @ evs @ [ev, ev2]) ev3")
      case (Some err)
      with first assms[unfolded u] have
        r: "sr = Inl err" "n1 = n" "tr1 = tr @ evs @ [ev, ev2, ev3]"
        by simp_all
      have 1: ?indep unfolding u' r by (simp add: first Some)
      have 4: ?creates
        using evs unfolding r ev_def
        by (intro exI[of _ evs] exI[of _ channel] exI[of _ cfg] exI[of _ "[ev2, ev3]"]) simp
      have 5: ?errors
        unfolding r using Some by (simp add: butlast_append ev3_def)
      have 6: ?success by (simp add: r(1))
      show ?thesis by (rule conjI[OF 1 conjI[OF 2 conjI[OF 3 conjI[OF 4 conjI[OF 5 6]]]]])
    next
      case None
      with first assms[unfolded u] have
        r: "sr = Inr (length (c n))" "n1 = n\<lparr>c := c n @ [s]\<rparr>"
           "tr1 = tr @ evs @ [ev, ev2, ev3]"
        by simp_all
      have 1: ?indep unfolding u' r by (simp add: first None)
      have 4: ?creates
        using evs unfolding r ev_def
        by (intro exI[of _ evs] exI[of _ channel] exI[of _ cfg] exI[of _ "[ev2, ev3]"]) simp
      have 6: ?success
        unfolding r using s_fields
        by (intro allI impI conjI exI[of _ s] exI[of _ evs] exI[of _ channel] exI[of _ cfg])
           (simp_all add: ev_def ev2_def ev3_def h_def)
      have 5: ?errors by (simp add: r(1))
      show ?thesis by (rule conjI[OF 1 conjI[OF 2 conjI[OF 3 conjI[OF 4 conjI[OF 5 6]]]]])
    qed
  qed
qed

theorem Subscribe_without_Connect_witness:
  "Subscribe refusing_env (NewBroker refusing_env []) [] ''orders'' 7 [in_queue ''q''] =
     (Inr 0, subscribed_broker, subscribed_trace) \<and>
   \<not> running (NewBroker refusing_env []) \<and> p (NewBroker refusing_env []) = [] \<and>
   \<not> running subscribed_broker \<and> p subscribed_broker = [] \<and>
   c subscribed_broker = [orders_record 0]"
  using Subscribe_without_Connect[OF refusing_Subscribe] refusing_Subscribe
  by (simp add: subscribed_broker_def NewBroker_def Let_def)

end
